theory Spec2Isabelle
  imports Main "HOL-Library.Word"
begin

unbundle bit_operations_syntax

section \<open>Data model of \<open>uninitialized_buffer<_Tp, _Properties...>\<close>\<close>

text \<open>
  \<open>size_t\<close> is a 64-bit unsigned integer: \<open>+\<close>, \<open>-\<close> and \<open>*\<close> wrap around. A \<open>void*\<close> is
  its address, and \<open>nullptr\<close> is the address 0.
\<close>

type_synonym size_t = "64 word"
type_synonym ptr = "64 word"

definition nullptr :: ptr where
  "nullptr = 0"

text \<open>
  The template parameter \<open>_Tp\<close> enters the class only through \<open>sizeof(_Tp)\<close> and
  \<open>alignof(_Tp)\<close>; the model takes the two constants as a parameter.
\<close>

record type_info =
  sizeof :: size_t
  alignof :: size_t

definition is_power_of_two :: "size_t \<Rightarrow> bool" where
  "is_power_of_two a = (\<exists>k \<in> {0..<64}. a = 2 ^ k)"

text \<open>
  What C++ guarantees of every object type: the alignment is a power of two, and the
  size is a multiple of the alignment (the elements of an array are contiguous and each
  one is aligned).
\<close>

definition object_type :: "type_info \<Rightarrow> bool" where
  "object_type T = (is_power_of_two (alignof T) \<and> sizeof T mod alignof T = 0)"

subsection \<open>The allocation size (lines 71-75)\<close>

definition get_allocation_size :: "type_info \<Rightarrow> size_t \<Rightarrow> size_t" where
  "get_allocation_size T cnt =
     (let alignment = alignof T
      in (cnt * sizeof T + (alignment - 1)) AND NOT (alignment - 1))"

subsection \<open>The aligned start of the buffer (lines 78-85)\<close>

text \<open>
  Modelled from the spec: \<open>_CUDA_VSTD::align\<close> (header \<open>cuda/std/__memory/align.h\<close>),
  which \<open>__get_data\<close> calls and which is not among the sources. The spec describes it as
  the align-forward primitive \<open>(pointer, availableBytes, requiredAlignment, requiredBytes)
  -> adjustedPointer | failure\<close>: search the byte range \<open>[p, p + space)\<close> for the first
  address that satisfies the alignment, and verify that at least \<open>size\<close> bytes remain from
  that address. \<open>None\<close> is the failure.
\<close>

function align :: "size_t \<Rightarrow> size_t \<Rightarrow> ptr \<Rightarrow> size_t \<Rightarrow> ptr option" where
  "align alignment sz p space =
     (if space = 0 then None
      else if p mod alignment = 0 then (if sz \<le> space then Some p else None)
      else align alignment sz (p + 1) (space - 1))"
  by pat_completeness auto
termination
  by (relation "measure (\<lambda>(alignment, sz, p, space). unat space)")
     (auto simp: unat_minus_one unat_gt_0)

declare align.simps [simp del]

text \<open>
  A buffer object: the three data members (lines 66-68). The resource reference is an
  identifier of type \<open>'r\<close>; copying the reference copies the identifier.
\<close>

record 'r buffer =
  mr :: 'r
  count :: size_t
  buf :: ptr

text \<open>
  \<open>__get_data\<close>: the result of \<open>align\<close> reinterpreted as a \<open>_Tp*\<close>. The cast and the launder
  do not change the address. Where \<open>align\<close> fails the spec calls the behaviour undefined;
  the model returns \<open>None\<close>.
\<close>

definition get_data :: "type_info \<Rightarrow> 'r buffer \<Rightarrow> ptr option" where
  "get_data T b =
     (let alignment = alignof T;
          space = get_allocation_size T (count b);
          p = buf b
      in align alignment (count b * sizeof T) p space)"

subsection \<open>Accessors (lines 147-150 and 158-177)\<close>

definition begin_buffer :: "type_info \<Rightarrow> 'r buffer \<Rightarrow> ptr option" where
  "begin_buffer T b = get_data T b"

definition data :: "type_info \<Rightarrow> 'r buffer \<Rightarrow> ptr option" where
  "data T b = get_data T b"

definition size_buffer :: "'r buffer \<Rightarrow> size_t" where
  "size_buffer b = count b"

definition resource :: "'r buffer \<Rightarrow> 'r" where
  "resource b = mr b"

section \<open>Objects, resources and the calls made to them\<close>

text \<open>
  The calls a buffer makes to a memory resource, in the order they are issued.
\<close>

datatype 'r event = Allocate 'r size_t | Deallocate 'r ptr size_t

text \<open>
  The memory resources are outside the class. \<open>allocate\<close> of resource \<open>r\<close> is a parameter
  of the model: given the calls issued so far and the number of bytes, it returns the
  pointer, or \<open>None\<close> when it throws. \<open>deallocate\<close> returns nothing and is only recorded.
\<close>

type_synonym 'r resources = "'r \<Rightarrow> 'r event list \<Rightarrow> size_t \<Rightarrow> ptr option"

datatype error = AllocationFailure

text \<open>
  Move assignment and swap take a second object by reference, which may be the object
  itself. So the objects live in a store: \<open>heap\<close> maps an object's address to the values
  of its data members, \<open>live\<close> holds the addresses of the objects whose lifetime has begun
  and not ended, and \<open>calls\<close> is the log of the calls issued to resources.
\<close>

record 'r world =
  heap :: "nat \<Rightarrow> 'r buffer"
  live :: "nat set"
  calls :: "'r event list"

definition set_mr :: "nat \<Rightarrow> 'r \<Rightarrow> 'r world \<Rightarrow> 'r world" where
  "set_mr this v w = w\<lparr>heap := (heap w)(this := (heap w this)\<lparr>mr := v\<rparr>)\<rparr>"

definition set_count :: "nat \<Rightarrow> size_t \<Rightarrow> 'r world \<Rightarrow> 'r world" where
  "set_count this v w = w\<lparr>heap := (heap w)(this := (heap w this)\<lparr>count := v\<rparr>)\<rparr>"

definition set_buf :: "nat \<Rightarrow> ptr \<Rightarrow> 'r world \<Rightarrow> 'r world" where
  "set_buf this v w = w\<lparr>heap := (heap w)(this := (heap w this)\<lparr>buf := v\<rparr>)\<rparr>"

definition deallocate :: "'r \<Rightarrow> ptr \<Rightarrow> size_t \<Rightarrow> 'r world \<Rightarrow> 'r world" where
  "deallocate r p bytes w = w\<lparr>calls := calls w @ [Deallocate r p bytes]\<rparr>"

subsection \<open>Constructor (lines 99-103)\<close>

text \<open>
  The member initialisers run in the order of the declarations: \<open>__mr_\<close>, \<open>__count_\<close>,
  \<open>__buf_\<close>; the last one reads the two members already set. When \<open>allocate\<close> throws,
  the exception leaves the constructor: the lifetime of the object never begins and
  its destructor does not run.
\<close>

definition uninitialized_buffer ::
  "'r resources \<Rightarrow> type_info \<Rightarrow> nat \<Rightarrow> 'r \<Rightarrow> size_t \<Rightarrow> 'r world \<Rightarrow> (error + unit) \<times> 'r world" where
  "uninitialized_buffer res T this m cnt w =
     (let w1 = set_mr this m w;
          w2 = set_count this cnt w1
      in if count (heap w2 this) = 0
         then (Inr (), (set_buf this nullptr w2)\<lparr>live := insert this (live w2)\<rparr>)
         else
           let r = mr (heap w2 this);
               bytes = get_allocation_size T (count (heap w2 this));
               w3 = w2\<lparr>calls := calls w2 @ [Allocate r bytes]\<rparr>
           in case res r (calls w2) bytes of
                None \<Rightarrow> (Inl AllocationFailure, w3)
              | Some p \<Rightarrow> (Inr (), (set_buf this p w3)\<lparr>live := insert this (live w3)\<rparr>))"

subsection \<open>Move constructor (lines 110-117)\<close>

definition move_construct :: "nat \<Rightarrow> nat \<Rightarrow> 'r world \<Rightarrow> 'r world" where
  "move_construct this other w =
     (let w1 = set_mr this (mr (heap w other)) w;
          w2 = set_count this (count (heap w1 other)) w1;
          w3 = set_buf this (buf (heap w2 other)) w2;
          w4 = set_count other 0 w3;
          w5 = set_buf other nullptr w4
      in w5\<lparr>live := insert this (live w5)\<rparr>)"

subsection \<open>Move assignment (lines 121-133)\<close>

definition move_assign :: "type_info \<Rightarrow> nat \<Rightarrow> nat \<Rightarrow> 'r world \<Rightarrow> 'r world" where
  "move_assign T this other w =
     (let w0 = (if buf (heap w this) \<noteq> nullptr
                then deallocate (mr (heap w this)) (buf (heap w this))
                       (get_allocation_size T (count (heap w this))) w
                else w);
          w1 = set_mr this (mr (heap w0 other)) w0;
          w2 = set_count this (count (heap w1 other)) w1;
          w3 = set_buf this (buf (heap w2 other)) w2;
          w4 = set_count other 0 w3;
          w5 = set_buf other nullptr w4
      in w5)"

subsection \<open>Destructor (lines 138-144)\<close>

definition destroy :: "type_info \<Rightarrow> nat \<Rightarrow> 'r world \<Rightarrow> 'r world" where
  "destroy T this w =
     (let w0 = (if buf (heap w this) \<noteq> nullptr
                then deallocate (mr (heap w this)) (buf (heap w this))
                       (get_allocation_size T (count (heap w this))) w
                else w)
      in w0\<lparr>live := live w0 - {this}\<rparr>)"

subsection \<open>Swap (lines 181-186)\<close>

text \<open>
  Modelled from the spec: \<open>_CUDA_VSTD::swap\<close> (header \<open>cuda/std/__utility/swap.h\<close>), not
  among the sources. The spec has it exchange the values of a field of the two objects:
  the first is saved, the second is written to the first, the saved value to the second.
\<close>

definition std_swap ::
  "('r buffer \<Rightarrow> 'v) \<Rightarrow> (nat \<Rightarrow> 'v \<Rightarrow> 'r world \<Rightarrow> 'r world) \<Rightarrow> nat \<Rightarrow> nat \<Rightarrow> 'r world \<Rightarrow> 'r world" where
  "std_swap field set_field a b w =
     (let tmp = field (heap w a);
          w1 = set_field a (field (heap w b)) w
      in set_field b tmp w1)"

definition swap :: "nat \<Rightarrow> nat \<Rightarrow> 'r world \<Rightarrow> 'r world" where
  "swap this other w =
     (let w1 = std_swap mr set_mr this other w;
          w2 = std_swap count set_count this other w1;
          w3 = std_swap buf set_buf this other w2
      in w3)"

section \<open>States and programs\<close>

text \<open>The two lifecycle states of the spec, and its invariant on every living object.\<close>

definition Empty :: "'r buffer \<Rightarrow> bool" where
  "Empty b = (count b = 0 \<and> buf b = nullptr)"

definition Holding :: "'r buffer \<Rightarrow> bool" where
  "Holding b = (count b \<noteq> 0 \<and> buf b \<noteq> nullptr)"

definition invariant :: "'r world \<Rightarrow> bool" where
  "invariant w = (\<forall>i \<in> live w. (count (heap w i) = 0) = (buf (heap w i) = nullptr))"

text \<open>The precondition on the resources: a successful \<open>allocate\<close> returns a non-null pointer.\<close>

definition allocate_non_null :: "'r resources \<Rightarrow> bool" where
  "allocate_non_null res = (\<forall>r h bytes p. res r h bytes = Some p \<longrightarrow> p \<noteq> nullptr)"

text \<open>
  A program is a list of operations on objects. An operation is defined when it respects
  the lifetimes: a constructor runs on storage that holds no living object, every other
  operation on living objects. A constructor that throws leaves the program running (the
  caller catches the exception).
\<close>

datatype 'r operation =
    Construct nat 'r size_t
  | MoveConstruct nat nat
  | MoveAssign nat nat
  | Swap nat nat
  | Destroy nat

fun step :: "'r resources \<Rightarrow> type_info \<Rightarrow> 'r operation \<Rightarrow> 'r world \<Rightarrow> 'r world option" where
  "step res T (Construct this m cnt) w =
     (if this \<in> live w then None else Some (snd (uninitialized_buffer res T this m cnt w)))"
| "step res T (MoveConstruct this other) w =
     (if this \<notin> live w \<and> other \<in> live w then Some (move_construct this other w) else None)"
| "step res T (MoveAssign this other) w =
     (if this \<in> live w \<and> other \<in> live w then Some (move_assign T this other w) else None)"
| "step res T (Swap this other) w =
     (if this \<in> live w \<and> other \<in> live w then Some (swap this other w) else None)"
| "step res T (Destroy this) w =
     (if this \<in> live w then Some (destroy T this w) else None)"

fun run :: "'r resources \<Rightarrow> type_info \<Rightarrow> 'r operation list \<Rightarrow> 'r world \<Rightarrow> 'r world option" where
  "run res T [] w = Some w"
| "run res T (x # xs) w = (case step res T x w of None \<Rightarrow> None | Some w' \<Rightarrow> run res T xs w')"

text \<open>Storage in which no object lives and no call has been issued.\<close>

definition no_objects :: "'r \<Rightarrow> 'r world" where
  "no_objects r = \<lparr>heap = (\<lambda>i. \<lparr>mr = r, count = 0, buf = nullptr\<rparr>), live = {}, calls = []\<rparr>"

text \<open>The numbers of \<open>allocate\<close> and of \<open>deallocate\<close> calls in a log.\<close>

fun is_allocate :: "'r event \<Rightarrow> bool" where
  "is_allocate (Allocate r bytes) = True"
| "is_allocate (Deallocate r p bytes) = False"

definition allocate_calls :: "'r event list \<Rightarrow> nat" where
  "allocate_calls es = length (filter is_allocate es)"

definition deallocate_calls :: "'r event list \<Rightarrow> nat" where
  "deallocate_calls es = length (filter (\<lambda>e. \<not> is_allocate e) es)"

section \<open>Rounding up with a mask\<close>

lemma and_not_mask_minus:
  "(x :: 'a::len word) AND NOT (mask k) = x - take_bit k x"
proof -
  have "x AND NOT (mask k) = push_bit k (drop_bit k x)"
    by (rule bit_eqI) (auto simp: bit_simps)
  moreover have "push_bit k (drop_bit k x) + take_bit k x = x"
    by (rule bits_ident)
  ultimately show ?thesis
    by (metis add_diff_cancel_right')
qed

lemma unat_and_not_mask:
  "unat ((x :: 'a::len word) AND NOT (mask k)) = unat x - unat x mod 2 ^ k"
proof -
  have le: "take_bit k x \<le> x"
    by (simp add: word_le_nat_alt unsigned_take_bit_eq)
  have "unat (x - take_bit k x) = unat x - unat (take_bit k x)"
    using le by (simp add: unat_sub)
  moreover have "unat (take_bit k x) = unat x mod 2 ^ k"
    unfolding unsigned_take_bit_eq by (rule take_bit_eq_mod)
  ultimately show ?thesis
    by (simp add: and_not_mask_minus)
qed

lemma round_up_nat:
  fixes b a :: nat
  assumes "0 < a"
  defines "m \<equiv> (b + (a - 1)) - (b + (a - 1)) mod a"
  shows "m mod a = 0 \<and> b \<le> m \<and> m - b < a"
proof -
  let ?s = "b + (a - 1)"
  have lt: "?s mod a < a" using assms(1) by simp
  have "m = ?s div a * a" unfolding m_def by (simp add: minus_mod_eq_div_mult)
  then have "m mod a = 0" by simp
  moreover have "b \<le> m" unfolding m_def using lt by arith
  moreover have "m - b < a" unfolding m_def using assms(1) by arith
  ultimately show ?thesis by blast
qed

lemma unat_pow2_64:
  assumes "k < 64" shows "unat ((2::64 word) ^ k) = 2 ^ k"
proof -
  have lt: "(2::nat) ^ k < 2 ^ LENGTH(64)"
    by (rule power_strict_increasing) (use assms in simp_all)
  have "unat (of_nat (2 ^ k) :: 64 word) = 2 ^ k mod 2 ^ LENGTH(64)"
    by (rule unat_of_nat)
  also have "\<dots> = 2 ^ k" using lt by (rule mod_less)
  finally show ?thesis by simp
qed

lemma get_allocation_size_padded:
  fixes T :: type_info and n :: size_t
  assumes pow: "is_power_of_two (alignof T)"
    and fits: "unat n * unat (sizeof T) + unat (alignof T) \<le> 2 ^ 64"
  shows "unat (get_allocation_size T n) mod unat (alignof T) = 0
       \<and> unat n * unat (sizeof T) \<le> unat (get_allocation_size T n)
       \<and> unat (get_allocation_size T n) - unat n * unat (sizeof T) < unat (alignof T)"
proof -
  from pow obtain k where k: "k < 64" and al: "alignof T = 2 ^ k"
    by (auto simp: is_power_of_two_def)
  define a where "a = unat (alignof T)"
  define b where "b = unat n * unat (sizeof T)"
  have ua: "a = 2 ^ k" using k al by (simp add: a_def unat_pow2_64)
  have pos: "0 < a" by (simp add: ua)
  have fits': "b + a \<le> 2 ^ LENGTH(64)" using fits by (simp add: a_def b_def)
  have "unat n * unat (sizeof T) < 2 ^ LENGTH(64)"
    using fits' pos unfolding b_def by linarith
  then have ub: "unat (n * sizeof T) = b"
    unfolding b_def by (rule unat_mult_lem [THEN iffD1])
  have "alignof T \<noteq> 0" using pos by (auto simp: a_def)
  then have um: "unat (alignof T - 1) = a - 1"
    by (simp add: a_def unat_minus_one)
  have "unat (n * sizeof T) + unat (alignof T - 1) < 2 ^ LENGTH(64)"
    using fits' pos ub um by linarith
  then have "unat (n * sizeof T + (alignof T - 1)) = unat (n * sizeof T) + unat (alignof T - 1)"
    by (rule unat_add_lem [THEN iffD1])
  then have us: "unat (n * sizeof T + (alignof T - 1)) = b + (a - 1)"
    using ub um by simp
  have "get_allocation_size T n = (n * sizeof T + (alignof T - 1)) AND NOT (mask k)"
    by (simp add: get_allocation_size_def Let_def al mask_eq_exp_minus_1)
  then have eq: "unat (get_allocation_size T n) = (b + (a - 1)) - (b + (a - 1)) mod a"
    by (simp add: unat_and_not_mask us ua)
  have "unat (get_allocation_size T n) mod a = 0
      \<and> b \<le> unat (get_allocation_size T n)
      \<and> unat (get_allocation_size T n) - b < a"
    unfolding eq by (rule round_up_nat [OF pos])
  then show ?thesis
    unfolding a_def b_def .
qed

lemma object_type_padding_fits:
  fixes T :: type_info and n :: size_t
  assumes obj: "object_type T"
    and fits: "unat n * unat (sizeof T) < 2 ^ 64"
  shows "unat n * unat (sizeof T) + unat (alignof T) \<le> 2 ^ 64"
proof -
  from obj obtain k where k: "k < 64" and al: "alignof T = 2 ^ k"
    by (auto simp: object_type_def is_power_of_two_def)
  define a where "a = unat (alignof T)"
  have ua: "a = 2 ^ k" using k al by (simp add: a_def unat_pow2_64)
  have "unat (sizeof T mod alignof T) = 0"
    using obj by (simp add: object_type_def)
  then have "unat (sizeof T) mod a = 0"
    by (simp add: unat_mod a_def)
  then obtain q where q: "unat (sizeof T) = a * q"
    by (auto simp: mod_eq_0_iff_dvd)
  have split: "(2::nat) ^ 64 = a * 2 ^ (64 - k)"
    using k by (simp add: ua flip: power_add)
  have "a * (unat n * q) < a * 2 ^ (64 - k)"
    using fits q split by (simp add: mult.assoc mult.left_commute)
  then have "unat n * q < 2 ^ (64 - k)"
    by simp
  then have "unat n * q + 1 \<le> 2 ^ (64 - k)"
    by simp
  then have "a * (unat n * q + 1) \<le> a * 2 ^ (64 - k)"
    by (rule mult_le_mono2)
  then show ?thesis
    using q split by (simp add: a_def algebra_simps)
qed

text \<open>
  For an object type the padded sum fits as soon as the byte count does: the byte count
  is a multiple of the alignment, and so is \<open>2 ^ 64\<close>.
\<close>

lemma get_allocation_size_object_type:
  fixes T :: type_info and n :: size_t
  assumes "object_type T"
    and "unat n * unat (sizeof T) < 2 ^ 64"
  shows "unat (get_allocation_size T n) mod unat (alignof T) = 0
       \<and> unat n * unat (sizeof T) \<le> unat (get_allocation_size T n)
       \<and> unat (get_allocation_size T n) - unat n * unat (sizeof T) < unat (alignof T)"
proof -
  have "is_power_of_two (alignof T)"
    using assms(1) by (simp add: object_type_def)
  moreover have "unat n * unat (sizeof T) + unat (alignof T) \<le> 2 ^ 64"
    using assms by (rule object_type_padding_fits)
  ultimately show ?thesis
    by (rule get_allocation_size_padded)
qed





section \<open>The aligned pointer\<close>

lemma word_sub_of_nat_le:
  fixes space :: "'a::len word"
  assumes "d < unat space"
  shows "space - of_nat d \<le> space"
proof -
  have "unat (of_nat d :: 'a word) = d"
    using assms by (metis le_unat_uoi less_imp_le)
  then have "(of_nat d :: 'a word) \<le> space"
    using assms by (simp add: word_le_nat_alt)
  then show ?thesis
    by (simp add: word_le_nat_alt unat_sub)
qed

lemma ptr_add_Suc: "(p::64 word) + 1 + of_nat d = p + of_nat (Suc d)"
  by simp

lemma space_sub_Suc: "(space::64 word) - 1 - of_nat d = space - of_nat (Suc d)"
  by simp

lemma align_hit:
  "space \<noteq> 0 \<Longrightarrow> p mod al = 0 \<Longrightarrow> sz \<le> space \<Longrightarrow> align al sz p space = Some p"
  by (subst align.simps) simp

lemma align_skip:
  "space \<noteq> 0 \<Longrightarrow> p mod al \<noteq> 0 \<Longrightarrow> align al sz p space = align al sz (p + 1) (space - 1)"
  by (subst align.simps) simp

lemma align_first:
  fixes p space sz al :: "64 word"
  assumes "d < unat space" "(p + of_nat d) mod al = 0" "sz \<le> space - of_nat d"
  shows "\<exists>d0\<le>d. align al sz p space = Some (p + of_nat d0)
           \<and> (p + of_nat d0) mod al = 0
           \<and> sz \<le> space - of_nat d0
           \<and> (\<forall>j<d0. (p + of_nat j) mod al \<noteq> 0)"
  using assms
proof (induction d arbitrary: p space)
  case 0
  from "0.prems" (1) have "space \<noteq> 0" by auto
  with "0.prems" have "align al sz p space = Some p"
    by (simp add: align_hit)
  with "0.prems" (2,3) show ?case by simp
next
  case (Suc d)
  from Suc.prems(1) have nz: "space \<noteq> 0" by auto
  show ?case
  proof (cases "p mod al = 0")
    case True
    have "space - of_nat (Suc d) \<le> space"
      using Suc.prems(1) by (rule word_sub_of_nat_le)
    with Suc.prems(3) have enough: "sz \<le> space" by (rule order_trans)
    with True nz have "align al sz p space = Some p"
      by (simp add: align_hit)
    with True enough show ?thesis
      by (intro exI [of _ 0]) simp
  next
    case False
    have d: "d < unat (space - 1)"
      using Suc.prems(1) nz by (simp add: unat_minus_one)
    have a: "(p + 1 + of_nat d) mod al = 0"
      using Suc.prems(2) by (simp only: ptr_add_Suc)
    have s: "sz \<le> space - 1 - of_nat d"
      using Suc.prems(3) by (simp only: space_sub_Suc)
    from Suc.IH [OF d a s] obtain d0 where le: "d0 \<le> d"
      and res: "align al sz (p + 1) (space - 1) = Some (p + 1 + of_nat d0)"
      and al0: "(p + 1 + of_nat d0) mod al = 0"
      and rem: "sz \<le> space - 1 - of_nat d0"
      and before: "\<forall>j<d0. (p + 1 + of_nat j) mod al \<noteq> 0"
      by (elim exE conjE)
    have r: "align al sz p space = align al sz (p + 1) (space - 1)"
      using nz False by (rule align_skip)
    have first: "\<forall>j<Suc d0. (p + of_nat j) mod al \<noteq> 0"
    proof (intro allI impI)
      fix j assume j: "j < Suc d0"
      show "(p + of_nat j) mod al \<noteq> 0"
      proof (cases j)
        case 0 with False show ?thesis by simp
      next
        case (Suc j')
        with j have "j' < d0" by simp
        with before have "(p + 1 + of_nat j') mod al \<noteq> 0" by simp
        then have "(p + of_nat (Suc j')) mod al \<noteq> 0"
          unfolding ptr_add_Suc .
        then show ?thesis unfolding Suc .
      qed
    qed
    have found: "align al sz p space = Some (p + of_nat (Suc d0))"
      using r res by (simp only: ptr_add_Suc)
    have aligned: "(p + of_nat (Suc d0)) mod al = 0"
      using al0 by (simp only: ptr_add_Suc)
    have remaining: "sz \<le> space - of_nat (Suc d0)"
      using rem by (simp only: space_sub_Suc)
    have "Suc d0 \<le> Suc d" using le by simp
    with found aligned remaining first show ?thesis
      by (intro exI [of _ "Suc d0"] conjI)
  qed
qed

text \<open>
  C2. Let the allocation range \<open>[raw, raw + size(count))\<close> of a buffer hold, at offset \<open>d\<close>,
  an address that satisfies \<open>alignof(T)\<close> with at least \<open>count * sizeof(T)\<close> bytes
  remaining after it. Then \<open>data()\<close> and \<open>begin()\<close> return the first address of the range
  that satisfies the alignment: it is a multiple of \<open>alignof(T)\<close>, at least
  \<open>count * sizeof(T)\<close> bytes of the range remain after it, and no address before it in
  the range is aligned. The result is computed from \<open>raw\<close> and \<open>count\<close> at each call: two
  buffers that agree on both give the same result. This covers every Holding buffer.
\<close>

theorem data_first_aligned_address:
  fixes T :: type_info and b :: "'r buffer"
  assumes "d < unat (get_allocation_size T (count b))"
    and "(buf b + of_nat d) mod alignof T = 0"
    and "count b * sizeof T \<le> get_allocation_size T (count b) - of_nat d"
  shows "\<exists>d0\<le>d. data T b = Some (buf b + of_nat d0)
           \<and> begin_buffer T b = Some (buf b + of_nat d0)
           \<and> (buf b + of_nat d0) mod alignof T = 0
           \<and> count b * sizeof T \<le> get_allocation_size T (count b) - of_nat d0
           \<and> (\<forall>j<d0. (buf b + of_nat j) mod alignof T \<noteq> 0)
           \<and> (\<forall>b' :: 'r buffer. buf b' = buf b \<and> count b' = count b \<longrightarrow> data T b' = data T b)"
proof -
  from align_first [OF assms] obtain d0 where le: "d0 \<le> d"
    and res: "align (alignof T) (count b * sizeof T) (buf b) (get_allocation_size T (count b))
                = Some (buf b + of_nat d0)"
    and al0: "(buf b + of_nat d0) mod alignof T = 0"
    and rem: "count b * sizeof T \<le> get_allocation_size T (count b) - of_nat d0"
    and before: "\<forall>j<d0. (buf b + of_nat j) mod alignof T \<noteq> 0"
    by (elim exE conjE)
  have d: "data T b = Some (buf b + of_nat d0)"
    using res by (simp add: data_def get_data_def Let_def)
  have bg: "begin_buffer T b = Some (buf b + of_nat d0)"
    using res by (simp add: begin_buffer_def get_data_def Let_def)
  have same: "\<forall>b' :: 'r buffer. buf b' = buf b \<and> count b' = count b \<longrightarrow> data T b' = data T b"
    by (simp add: data_def get_data_def Let_def)
  from le d bg al0 rem before same show ?thesis
    by (intro exI [of _ d0] conjI)
qed

theorem data_first_aligned_address_witness:
  "(0::nat) < unat (get_allocation_size \<lparr>sizeof = 4, alignof = 4\<rparr> 10)
   \<and> data \<lparr>sizeof = 4, alignof = 4\<rparr> \<lparr>mr = (), count = 10, buf = 4096\<rparr> = Some 4096
   \<and> begin_buffer \<lparr>sizeof = 4, alignof = 4\<rparr> \<lparr>mr = (), count = 10, buf = 4096\<rparr> = Some 4096
   \<and> (4096 :: ptr) mod 4 = 0"
  using data_first_aligned_address
    [of 0 "\<lparr>sizeof = 4, alignof = 4\<rparr>" "\<lparr>mr = (), count = 10, buf = 4096\<rparr>"]
  by (simp add: get_allocation_size_def Let_def)

section \<open>The calls of the operations\<close>

lemmas field_updates = set_mr_def set_count_def set_buf_def deallocate_def nullptr_def

lemma constructor_success:
  fixes res :: "'r resources"
  assumes "uninitialized_buffer res T this m cnt w = (Inr (), w')"
  shows "calls w' = calls w @ (if cnt = 0 then [] else [Allocate m (get_allocation_size T cnt)])
       \<and> mr (heap w' this) = m \<and> count (heap w' this) = cnt
       \<and> (\<forall>i. i \<noteq> this \<longrightarrow> heap w' i = heap w i)"
  using assms
  by (auto simp add: uninitialized_buffer_def field_updates Let_def split: option.splits if_splits)

lemma calls_swap: "calls (swap x y w) = calls w"
  by (simp add: swap_def std_swap_def field_updates Let_def)

lemma destroy_without_allocation:
  "buf (heap w i) = nullptr \<Longrightarrow> calls (destroy T i w) = calls w"
  by (simp add: destroy_def Let_def)

lemma move_assign_without_allocation:
  "buf (heap w i) = nullptr \<Longrightarrow> calls (move_assign T i z w) = calls w"
  by (simp add: move_assign_def field_updates Let_def)

lemma moved_from_move_construct:
  "heap (move_construct this other w) other = (heap w other)\<lparr>count := 0, buf := nullptr\<rparr>"
  by (simp add: move_construct_def field_updates Let_def)

lemma moved_from_move_assign:
  "heap (move_assign T this other w) other = (heap w other)\<lparr>count := 0, buf := nullptr\<rparr>"
  by (simp add: move_assign_def field_updates Let_def)

lemma live_move_construct: "live (move_construct this other w) = insert this (live w)"
  by (simp add: move_construct_def field_updates Let_def)

lemma live_move_assign: "live (move_assign T this other w) = live w"
  by (simp add: move_assign_def field_updates Let_def)

subsection \<open>Construction\<close>

text \<open>
  C3. Constructing a buffer with resource \<open>m\<close> and count \<open>cnt\<close> issues a call to
  \<open>allocate\<close> exactly when \<open>cnt > 0\<close>. With \<open>cnt = 0\<close> no call is issued, the
  construction succeeds and \<open>size()\<close> is 0 afterwards. With \<open>cnt > 0\<close> exactly one call
  is issued, to \<open>m\<close> with the allocation size of \<open>cnt\<close> as its argument, and a buffer
  that has been constructed has \<open>size() = cnt\<close>. No \<open>deallocate\<close> call is issued.
\<close>

theorem constructor_allocates_iff_count_positive:
  fixes res :: "'r resources"
  assumes "r = uninitialized_buffer res T this m cnt w"
  shows "calls (snd r) = calls w @ (if cnt = 0 then [] else [Allocate m (get_allocation_size T cnt)])
       \<and> allocate_calls (calls (snd r)) = allocate_calls (calls w) + (if cnt = 0 then 0 else 1)
       \<and> deallocate_calls (calls (snd r)) = deallocate_calls (calls w)
       \<and> (cnt = 0 \<longrightarrow> fst r = Inr ())
       \<and> (fst r = Inr () \<longrightarrow> this \<in> live (snd r) \<and> size_buffer (heap (snd r) this) = cnt)"
  unfolding assms
  by (simp add: uninitialized_buffer_def field_updates Let_def size_buffer_def
        allocate_calls_def deallocate_calls_def split: option.split)

theorem constructor_allocates_iff_count_positive_witness:
  "calls (snd (uninitialized_buffer (\<lambda>r h n. Some 4096) \<lparr>sizeof = 4, alignof = 4\<rparr> 0 (7::nat) 10 (no_objects 7)))
     = [Allocate 7 40]
   \<and> size_buffer (heap (snd (uninitialized_buffer (\<lambda>r h n. Some 4096) \<lparr>sizeof = 4, alignof = 4\<rparr> 0 (7::nat) 10 (no_objects 7))) 0) = 10
   \<and> fst (uninitialized_buffer (\<lambda>r h n. Some 4096) \<lparr>sizeof = 4, alignof = 4\<rparr> 0 (7::nat) 10 (no_objects 7)) = Inr ()"
  using constructor_allocates_iff_count_positive
    [OF refl, of "\<lambda>r h n. Some 4096" "\<lparr>sizeof = 4, alignof = 4\<rparr>" 0 "7::nat" 10 "no_objects 7"]
  by (simp add: uninitialized_buffer_def field_updates Let_def no_objects_def
        get_allocation_size_def size_buffer_def)

text \<open>
  C8. The construction fails exactly when \<open>cnt > 0\<close> and \<open>allocate\<close> throws. The
  failure reaches the caller as \<open>AllocationFailure\<close>; no object has come to life, the
  living objects are unchanged, the only call issued is the \<open>allocate\<close> that failed, and
  no \<open>deallocate\<close> is issued for it. A construction that does not fail has succeeded:
  the object lives and its three members are set.
\<close>

theorem failed_allocation_creates_no_buffer:
  fixes res :: "'r resources"
  assumes "r = uninitialized_buffer res T this m cnt w"
    and "this \<notin> live w"
  shows "(fst r = Inl AllocationFailure) = (cnt \<noteq> 0 \<and> res m (calls w) (get_allocation_size T cnt) = None)
       \<and> (fst r = Inl AllocationFailure \<longrightarrow>
             live (snd r) = live w
           \<and> this \<notin> live (snd r)
           \<and> (\<forall>i \<in> live (snd r). heap (snd r) i = heap w i)
           \<and> calls (snd r) = calls w @ [Allocate m (get_allocation_size T cnt)]
           \<and> deallocate_calls (calls (snd r)) = deallocate_calls (calls w))
       \<and> (fst r \<noteq> Inl AllocationFailure \<longrightarrow>
             fst r = Inr ()
           \<and> live (snd r) = insert this (live w)
           \<and> mr (heap (snd r) this) = m
           \<and> count (heap (snd r) this) = cnt
           \<and> (cnt = 0 \<longrightarrow> buf (heap (snd r) this) = nullptr)
           \<and> (cnt \<noteq> 0 \<longrightarrow> res m (calls w) (get_allocation_size T cnt) = Some (buf (heap (snd r) this))))"
  unfolding assms(1) using assms(2)
  by (auto simp add: uninitialized_buffer_def field_updates Let_def
        deallocate_calls_def split: option.split)

theorem failed_allocation_creates_no_buffer_witness:
  "(0::nat) \<notin> live (no_objects (7::nat))
   \<and> fst (uninitialized_buffer (\<lambda>r h n. None) \<lparr>sizeof = 4, alignof = 4\<rparr> 0 (7::nat) 10 (no_objects 7))
       = Inl AllocationFailure
   \<and> live (snd (uninitialized_buffer (\<lambda>r h n. None) \<lparr>sizeof = 4, alignof = 4\<rparr> 0 (7::nat) 10 (no_objects 7))) = {}
   \<and> calls (snd (uninitialized_buffer (\<lambda>r h n. None) \<lparr>sizeof = 4, alignof = 4\<rparr> 0 (7::nat) 10 (no_objects 7)))
       = [Allocate 7 40]"
  using failed_allocation_creates_no_buffer
    [OF refl, of 0 "no_objects (7::nat)" "\<lambda>r h n. None" "\<lparr>sizeof = 4, alignof = 4\<rparr>" 7 10]
  by (simp add: uninitialized_buffer_def field_updates Let_def no_objects_def
        get_allocation_size_def)

subsection \<open>Moves\<close>

text \<open>
  C5. Move-constructing \<open>c\<close> from a Holding buffer \<open>b\<close> gives \<open>c\<close> the resource, count and
  pointer of \<open>b\<close> unchanged and leaves \<open>b\<close> Empty: \<open>c.size()\<close> is the original size of
  \<open>b\<close>, \<open>b.size()\<close> is 0, the move issues no call to a resource, and destroying \<open>b\<close>
  afterwards issues none either.
\<close>

theorem move_construct_takes_triple:
  fixes w :: "'r world"
  assumes "c \<noteq> b" and "Holding (heap w b)" and "w' = move_construct c b w"
  shows "heap w' c = heap w b
       \<and> size_buffer (heap w' c) = size_buffer (heap w b)
       \<and> size_buffer (heap w' b) = 0
       \<and> Empty (heap w' b)
       \<and> calls w' = calls w
       \<and> calls (destroy T b w') = calls w'"
  unfolding assms(3) using assms(1)
  by (simp add: move_construct_def destroy_def field_updates Let_def size_buffer_def Empty_def)

theorem move_construct_takes_triple_witness:
  "(let w = snd (uninitialized_buffer (\<lambda>r h n. Some 4096) \<lparr>sizeof = 4, alignof = 4\<rparr> 0 (7::nat) 5 (no_objects 7))
    in (1::nat) \<noteq> 0
     \<and> Holding (heap w 0)
     \<and> heap (move_construct 1 0 w) 1 = \<lparr>mr = 7, count = 5, buf = 4096\<rparr>
     \<and> size_buffer (heap (move_construct 1 0 w) 0) = 0
     \<and> calls (move_construct 1 0 w) = [Allocate 7 20]
     \<and> calls (destroy \<lparr>sizeof = 4, alignof = 4\<rparr> 0 (move_construct 1 0 w)) = [Allocate 7 20]
     \<and> calls (destroy \<lparr>sizeof = 4, alignof = 4\<rparr> 1
          (destroy \<lparr>sizeof = 4, alignof = 4\<rparr> 0 (move_construct 1 0 w)))
         = [Allocate 7 20, Deallocate 7 4096 20])"
  using move_construct_takes_triple
    [OF _ _ refl, of 1 0
      "snd (uninitialized_buffer (\<lambda>r h n. Some 4096) \<lparr>sizeof = 4, alignof = 4\<rparr> 0 (7::nat) 5 (no_objects 7))"
      "\<lparr>sizeof = 4, alignof = 4\<rparr>"]
  by (simp add: uninitialized_buffer_def move_construct_def destroy_def field_updates Let_def
        no_objects_def get_allocation_size_def size_buffer_def Holding_def)

text \<open>
  C6. For distinct Holding buffers \<open>a\<close> and \<open>b\<close>, the move assignment \<open>b = move(a)\<close> issues
  exactly one call, the \<open>deallocate\<close> of the allocation \<open>b\<close> held, with the allocation
  size of the count \<open>b\<close> had; then \<open>b\<close> has the resource, count and pointer of \<open>a\<close>, and
  \<open>a\<close> is Empty. Over the whole scenario (both constructed, the assignment, both
  destroyed) there are two \<open>allocate\<close> and two \<open>deallocate\<close> calls, each allocation
  released once with its own size.
\<close>

theorem move_assign_releases_then_adopts:
  fixes w :: "'r world" and res :: "'r resources"
  assumes "a \<noteq> b" and "Holding (heap w a)" and "Holding (heap w b)"
  shows "calls (move_assign T b a w) =
           calls w @ [Deallocate (mr (heap w b)) (buf (heap w b))
                        (get_allocation_size T (count (heap w b)))]
       \<and> heap (move_assign T b a w) b = heap w a
       \<and> heap (move_assign T b a w) a = (heap w a)\<lparr>count := 0, buf := nullptr\<rparr>
       \<and> Empty (heap (move_assign T b a w) a)
       \<and> (uninitialized_buffer res T a ra na w0 = (Inr (), w1)
            \<and> uninitialized_buffer res T b rb nb w1 = (Inr (), w)
          \<longrightarrow> calls (destroy T a (destroy T b (move_assign T b a w))) =
                calls w0 @ [Allocate ra (get_allocation_size T na),
                            Allocate rb (get_allocation_size T nb),
                            Deallocate rb (buf (heap w b)) (get_allocation_size T nb),
                            Deallocate ra (buf (heap w a)) (get_allocation_size T na)]
              \<and> allocate_calls (calls (destroy T a (destroy T b (move_assign T b a w))))
                  = allocate_calls (calls w0) + 2
              \<and> deallocate_calls (calls (destroy T a (destroy T b (move_assign T b a w))))
                  = deallocate_calls (calls w0) + 2)"
proof -
  have hb: "buf (heap w b) \<noteq> nullptr" and ha: "buf (heap w a) \<noteq> nullptr"
    and ca: "count (heap w a) \<noteq> 0" and cb: "count (heap w b) \<noteq> 0"
    using assms(2,3) by (simp_all add: Holding_def)
  have a1: "calls (move_assign T b a w) =
           calls w @ [Deallocate (mr (heap w b)) (buf (heap w b))
                        (get_allocation_size T (count (heap w b)))]"
    using assms(1) hb by (simp add: move_assign_def field_updates Let_def)
  have a2: "heap (move_assign T b a w) b = heap w a"
    using assms(1) by (simp add: move_assign_def field_updates Let_def)
  have a3: "heap (move_assign T b a w) a = (heap w a)\<lparr>count := 0, buf := nullptr\<rparr>"
    using assms(1) by (simp add: move_assign_def field_updates Let_def)
  have a4: "Empty (heap (move_assign T b a w) a)"
    using assms(1) by (simp add: move_assign_def field_updates Let_def Empty_def)
  have rest: "calls (destroy T a (destroy T b (move_assign T b a w))) =
      calls w @ [Deallocate (mr (heap w b)) (buf (heap w b)) (get_allocation_size T (count (heap w b))),
                 Deallocate (mr (heap w a)) (buf (heap w a)) (get_allocation_size T (count (heap w a)))]"
    using assms(1) hb ha by (simp add: move_assign_def destroy_def field_updates Let_def)
  have scenario: "calls (destroy T a (destroy T b (move_assign T b a w))) =
                calls w0 @ [Allocate ra (get_allocation_size T na),
                            Allocate rb (get_allocation_size T nb),
                            Deallocate rb (buf (heap w b)) (get_allocation_size T nb),
                            Deallocate ra (buf (heap w a)) (get_allocation_size T na)]"
    if c1: "uninitialized_buffer res T a ra na w0 = (Inr (), w1)"
      and c2: "uninitialized_buffer res T b rb nb w1 = (Inr (), w)"
  proof -
    note f1 = constructor_success [OF c1] and f2 = constructor_success [OF c2]
    from f2 have wb: "mr (heap w b) = rb" "count (heap w b) = nb" by simp_all
    from f2 assms(1) have "heap w a = heap w1 a" by simp
    with f1 have wa: "mr (heap w a) = ra" "count (heap w a) = na" by simp_all
    from ca cb wa wb have "na \<noteq> 0" "nb \<noteq> 0" by simp_all
    with f1 f2 have "calls w = calls w0 @ [Allocate ra (get_allocation_size T na),
                            Allocate rb (get_allocation_size T nb)]"
      by simp
    with rest wa wb show ?thesis by simp
  qed
  have sc: "uninitialized_buffer res T a ra na w0 = (Inr (), w1)
            \<and> uninitialized_buffer res T b rb nb w1 = (Inr (), w)
          \<longrightarrow> calls (destroy T a (destroy T b (move_assign T b a w))) =
                calls w0 @ [Allocate ra (get_allocation_size T na),
                            Allocate rb (get_allocation_size T nb),
                            Deallocate rb (buf (heap w b)) (get_allocation_size T nb),
                            Deallocate ra (buf (heap w a)) (get_allocation_size T na)]
              \<and> allocate_calls (calls (destroy T a (destroy T b (move_assign T b a w))))
                  = allocate_calls (calls w0) + 2
              \<and> deallocate_calls (calls (destroy T a (destroy T b (move_assign T b a w))))
                  = deallocate_calls (calls w0) + 2"
  proof (intro impI, elim conjE)
    assume c1: "uninitialized_buffer res T a ra na w0 = (Inr (), w1)"
      and c2: "uninitialized_buffer res T b rb nb w1 = (Inr (), w)"
    from scenario [OF c1 c2] show "calls (destroy T a (destroy T b (move_assign T b a w))) =
                calls w0 @ [Allocate ra (get_allocation_size T na),
                            Allocate rb (get_allocation_size T nb),
                            Deallocate rb (buf (heap w b)) (get_allocation_size T nb),
                            Deallocate ra (buf (heap w a)) (get_allocation_size T na)]
              \<and> allocate_calls (calls (destroy T a (destroy T b (move_assign T b a w))))
                  = allocate_calls (calls w0) + 2
              \<and> deallocate_calls (calls (destroy T a (destroy T b (move_assign T b a w))))
                  = deallocate_calls (calls w0) + 2"
      by (simp add: allocate_calls_def deallocate_calls_def)
  qed
  from a1 a2 a3 a4 sc show ?thesis
    by (intro conjI)
qed

theorem move_assign_releases_then_adopts_witness:
  "\<exists>w1 w. uninitialized_buffer (\<lambda>r h n. Some (4096 + 256 * of_nat (length h)))
              \<lparr>sizeof = 4, alignof = 4\<rparr> 2 (7::nat) 3 (no_objects 7) = (Inr (), w1)
     \<and> uninitialized_buffer (\<lambda>r h n. Some (4096 + 256 * of_nat (length h)))
              \<lparr>sizeof = 4, alignof = 4\<rparr> 3 8 7 w1 = (Inr (), w)
     \<and> (2::nat) \<noteq> 3
     \<and> Holding (heap w 2) \<and> Holding (heap w 3)
     \<and> calls (move_assign \<lparr>sizeof = 4, alignof = 4\<rparr> 3 2 w)
         = [Allocate 7 12, Allocate 8 28, Deallocate 8 4352 28]
     \<and> heap (move_assign \<lparr>sizeof = 4, alignof = 4\<rparr> 3 2 w) 3 = \<lparr>mr = 7, count = 3, buf = 4096\<rparr>
     \<and> calls (destroy \<lparr>sizeof = 4, alignof = 4\<rparr> 2 (destroy \<lparr>sizeof = 4, alignof = 4\<rparr> 3
           (move_assign \<lparr>sizeof = 4, alignof = 4\<rparr> 3 2 w)))
         = [Allocate 7 12, Allocate 8 28, Deallocate 8 4352 28, Deallocate 7 4096 12]"
proof -
  let ?R = "(\<lambda>r h n. Some (4096 + 256 * of_nat (length h))) :: nat resources"
  let ?T = "\<lparr>sizeof = 4, alignof = 4\<rparr>"
  obtain w1 where c1: "uninitialized_buffer ?R ?T 2 7 3 (no_objects 7) = (Inr (), w1)"
    and h1: "heap w1 2 = \<lparr>mr = 7, count = 3, buf = 4096\<rparr>"
    and l1: "calls w1 = [Allocate 7 12]"
    by (simp add: uninitialized_buffer_def field_updates Let_def no_objects_def
          get_allocation_size_def)
  obtain w where c2: "uninitialized_buffer ?R ?T 3 8 7 w1 = (Inr (), w)"
    and ha: "heap w 2 = \<lparr>mr = 7, count = 3, buf = 4096\<rparr>"
    and hb: "heap w 3 = \<lparr>mr = 8, count = 7, buf = 4352\<rparr>"
    and l: "calls w = [Allocate 7 12, Allocate 8 28]"
    using h1 l1
    by (simp add: uninitialized_buffer_def field_updates Let_def get_allocation_size_def)
  have ne: "(2::nat) \<noteq> 3" by simp
  have Ha: "Holding (heap w 2)" and Hb: "Holding (heap w 3)"
    by (simp_all add: ha hb Holding_def nullptr_def)
  note inst = move_assign_releases_then_adopts [OF ne Ha Hb, where T = "?T" and res = "?R"
      and ra = 7 and na = 3 and rb = 8 and nb = 7 and ?w0.0 = "no_objects 7" and ?w1.0 = w1]
  from inst have m1: "calls (move_assign ?T 3 2 w) = [Allocate 7 12, Allocate 8 28, Deallocate 8 4352 28]"
    by (simp add: hb l get_allocation_size_def)
  from inst have m2: "heap (move_assign ?T 3 2 w) 3 = \<lparr>mr = 7, count = 3, buf = 4096\<rparr>"
    by (simp add: ha)
  from inst c1 c2 have m3: "calls (destroy ?T 2 (destroy ?T 3 (move_assign ?T 3 2 w)))
         = [Allocate 7 12, Allocate 8 28, Deallocate 8 4352 28, Deallocate 7 4096 12]"
    by (simp add: ha hb no_objects_def get_allocation_size_def)
  from c1 c2 ne Ha Hb m1 m2 m3 show ?thesis
    by (intro exI [of _ w1] exI [of _ w] conjI)
qed

text \<open>
  C9. The self-assignment \<open>b = move(b)\<close> issues at most one \<open>deallocate\<close>: exactly one,
  with the resource, pointer and allocation size of \<open>b\<close>, when \<open>b\<close> holds an allocation,
  and none when \<open>b\<close> is Empty. It leaves \<open>b\<close> Empty (\<open>size() = 0\<close>, null pointer), and the
  destruction of \<open>b\<close> afterwards issues no further call.
\<close>

theorem self_move_assign_releases_once:
  fixes w :: "'r world"
  shows "calls (move_assign T b b w) =
           calls w @ (if buf (heap w b) \<noteq> nullptr
                      then [Deallocate (mr (heap w b)) (buf (heap w b))
                              (get_allocation_size T (count (heap w b)))]
                      else [])
       \<and> (Holding (heap w b) \<longrightarrow>
            calls (move_assign T b b w) =
              calls w @ [Deallocate (mr (heap w b)) (buf (heap w b))
                              (get_allocation_size T (count (heap w b)))])
       \<and> (Empty (heap w b) \<longrightarrow> calls (move_assign T b b w) = calls w)
       \<and> deallocate_calls (calls (move_assign T b b w)) \<le> deallocate_calls (calls w) + 1
       \<and> allocate_calls (calls (move_assign T b b w)) = allocate_calls (calls w)
       \<and> Empty (heap (move_assign T b b w) b)
       \<and> size_buffer (heap (move_assign T b b w) b) = 0
       \<and> buf (heap (move_assign T b b w) b) = nullptr
       \<and> live (move_assign T b b w) = live w
       \<and> calls (destroy T b (move_assign T b b w)) = calls (move_assign T b b w)"
  by (simp add: move_assign_def destroy_def field_updates Let_def size_buffer_def Empty_def
        Holding_def allocate_calls_def deallocate_calls_def)

theorem self_move_assign_releases_once_witness:
  "(let w = snd (uninitialized_buffer (\<lambda>r h n. Some 4096) \<lparr>sizeof = 4, alignof = 4\<rparr> 0 (7::nat) 5 (no_objects 7))
    in Holding (heap w 0)
     \<and> calls (move_assign \<lparr>sizeof = 4, alignof = 4\<rparr> 0 0 w) = [Allocate 7 20, Deallocate 7 4096 20]
     \<and> heap (move_assign \<lparr>sizeof = 4, alignof = 4\<rparr> 0 0 w) 0 = \<lparr>mr = 7, count = 0, buf = 0\<rparr>
     \<and> calls (destroy \<lparr>sizeof = 4, alignof = 4\<rparr> 0 (move_assign \<lparr>sizeof = 4, alignof = 4\<rparr> 0 0 w))
         = [Allocate 7 20, Deallocate 7 4096 20])"
  using self_move_assign_releases_once
    [of "\<lparr>sizeof = 4, alignof = 4\<rparr>" 0
      "snd (uninitialized_buffer (\<lambda>r h n. Some 4096) \<lparr>sizeof = 4, alignof = 4\<rparr> 0 (7::nat) 5 (no_objects 7))"]
  by (simp add: uninitialized_buffer_def move_assign_def destroy_def field_updates Let_def
        no_objects_def get_allocation_size_def Holding_def)

text \<open>
  C10. Move construction and move assignment leave the resource of the moved-from
  buffer as it was and reset only its count and pointer, to 0 and null. The moved-from
  buffer is an Empty buffer with its original resource; destroying it, assigning to it
  and swapping it issue no call to a resource.
\<close>

theorem moved_from_keeps_resource:
  fixes w :: "'r world"
  shows "heap (move_construct this other w) other = (heap w other)\<lparr>count := 0, buf := nullptr\<rparr>
       \<and> heap (move_assign T this other w) other = (heap w other)\<lparr>count := 0, buf := nullptr\<rparr>
       \<and> resource (heap (move_construct this other w) other) = resource (heap w other)
       \<and> resource (heap (move_assign T this other w) other) = resource (heap w other)
       \<and> Empty (heap (move_construct this other w) other)
       \<and> Empty (heap (move_assign T this other w) other)
       \<and> live (move_construct this other w) = insert this (live w)
       \<and> live (move_assign T this other w) = live w
       \<and> calls (destroy T other (move_construct this other w)) = calls (move_construct this other w)
       \<and> calls (destroy T other (move_assign T this other w)) = calls (move_assign T this other w)
       \<and> calls (move_assign T other z (move_construct this other w)) = calls (move_construct this other w)
       \<and> calls (move_assign T other z (move_assign T this other w)) = calls (move_assign T this other w)
       \<and> calls (swap other z (move_construct this other w)) = calls (move_construct this other w)
       \<and> calls (swap other z (move_assign T this other w)) = calls (move_assign T this other w)"
  by (simp add: moved_from_move_construct moved_from_move_assign live_move_construct
        live_move_assign calls_swap destroy_without_allocation move_assign_without_allocation
        resource_def Empty_def)

theorem moved_from_keeps_resource_witness:
  "(let w = snd (uninitialized_buffer (\<lambda>r h n. Some 4096) \<lparr>sizeof = 4, alignof = 4\<rparr> 0 (7::nat) 5 (no_objects 9))
    in heap w 0 = \<lparr>mr = 7, count = 5, buf = 4096\<rparr>
     \<and> heap (move_construct 1 0 w) 0 = \<lparr>mr = 7, count = 0, buf = 0\<rparr>
     \<and> heap (move_assign \<lparr>sizeof = 4, alignof = 4\<rparr> 1 0 w) 0 = \<lparr>mr = 7, count = 0, buf = 0\<rparr>
     \<and> resource (heap (move_assign \<lparr>sizeof = 4, alignof = 4\<rparr> 1 0 w) 0) = 7
     \<and> calls (destroy \<lparr>sizeof = 4, alignof = 4\<rparr> 0 (move_construct 1 0 w)) = [Allocate 7 20])"
  using moved_from_keeps_resource
    [of 1 0 "snd (uninitialized_buffer (\<lambda>r h n. Some 4096) \<lparr>sizeof = 4, alignof = 4\<rparr> 0 (7::nat) 5 (no_objects 9))"
        "\<lparr>sizeof = 4, alignof = 4\<rparr>" 1]
  by (simp add: uninitialized_buffer_def move_construct_def move_assign_def destroy_def
        field_updates Let_def no_objects_def get_allocation_size_def resource_def)

subsection \<open>Swap\<close>

text \<open>
  C7. For every two buffers \<open>x\<close> and \<open>y\<close>, \<open>swap\<close> exchanges the resource, the count and
  the pointer of the two, leaves the set of living objects as it is and issues no call
  to a resource; the sizes of the two buffers are exchanged.
\<close>

theorem swap_exchanges_fields:
  fixes w :: "'r world"
  shows "heap (swap x y w) x = heap w y
       \<and> heap (swap x y w) y = heap w x
       \<and> size_buffer (heap (swap x y w) x) = size_buffer (heap w y)
       \<and> size_buffer (heap (swap x y w) y) = size_buffer (heap w x)
       \<and> calls (swap x y w) = calls w
       \<and> live (swap x y w) = live w"
  by (simp add: swap_def std_swap_def field_updates Let_def size_buffer_def)

theorem swap_exchanges_fields_witness:
  "(let w1 = snd (uninitialized_buffer (\<lambda>r h n. Some (4096 + 256 * of_nat (length h)))
                   \<lparr>sizeof = 4, alignof = 4\<rparr> 0 (7::nat) 3 (no_objects 7));
        w = snd (uninitialized_buffer (\<lambda>r h n. Some (4096 + 256 * of_nat (length h)))
                   \<lparr>sizeof = 4, alignof = 4\<rparr> 1 8 7 w1)
    in size_buffer (heap w 0) = 3 \<and> size_buffer (heap w 1) = 7
     \<and> size_buffer (heap (swap 0 1 w) 0) = 7
     \<and> size_buffer (heap (swap 0 1 w) 1) = 3
     \<and> heap (swap 0 1 w) 0 = \<lparr>mr = 8, count = 7, buf = 4352\<rparr>
     \<and> heap (swap 0 1 w) 1 = \<lparr>mr = 7, count = 3, buf = 4096\<rparr>
     \<and> calls (swap 0 1 w) = calls w)"
  using swap_exchanges_fields
    [of 0 1 "snd (uninitialized_buffer (\<lambda>r h n. Some (4096 + 256 * of_nat (length h)))
                   \<lparr>sizeof = 4, alignof = 4\<rparr> 1 8 7
                 (snd (uninitialized_buffer (\<lambda>r h n. Some (4096 + 256 * of_nat (length h)))
                   \<lparr>sizeof = 4, alignof = 4\<rparr> 0 (7::nat) 3 (no_objects 7))))"]
  by (simp add: uninitialized_buffer_def swap_def std_swap_def field_updates Let_def
        no_objects_def get_allocation_size_def size_buffer_def)

section \<open>The state invariant\<close>

lemma invariant_constructor:
  assumes "allocate_non_null res" "invariant w" "this \<notin> live w"
  shows "invariant (snd (uninitialized_buffer res T this m cnt w))"
  using assms
  by (auto simp add: uninitialized_buffer_def invariant_def allocate_non_null_def
        field_updates Let_def split: option.split)

lemma invariant_move_construct:
  assumes "invariant w" "other \<in> live w"
  shows "invariant (move_construct this other w)"
  using assms
  by (auto simp add: move_construct_def invariant_def field_updates Let_def)

lemma invariant_move_assign:
  assumes "invariant w" "other \<in> live w"
  shows "invariant (move_assign T this other w)"
  using assms
  by (auto simp add: move_assign_def invariant_def field_updates Let_def)

lemma invariant_swap:
  assumes "invariant w" "this \<in> live w" "other \<in> live w"
  shows "invariant (swap this other w)"
  using assms
  by (auto simp add: swap_def std_swap_def invariant_def field_updates Let_def)

lemma invariant_destroy:
  assumes "invariant w"
  shows "invariant (destroy T this w)"
  using assms
  by (auto simp add: destroy_def invariant_def field_updates Let_def)

lemma invariant_step:
  assumes "allocate_non_null res" "invariant w" "step res T x w = Some w'"
  shows "invariant w'"
proof (cases x)
  case (Construct this m cnt)
  with assms show ?thesis
    by (auto simp: invariant_constructor split: if_splits)
next
  case (MoveConstruct this other)
  with assms show ?thesis
    by (auto simp: invariant_move_construct split: if_splits)
next
  case (MoveAssign this other)
  with assms show ?thesis
    by (auto simp: invariant_move_assign split: if_splits)
next
  case (Swap this other)
  with assms show ?thesis
    by (auto simp: invariant_swap split: if_splits)
next
  case (Destroy this)
  with assms show ?thesis
    by (auto simp: invariant_destroy split: if_splits)
qed

lemma invariant_run:
  assumes "allocate_non_null res"
  shows "invariant w \<Longrightarrow> run res T xs w = Some w' \<Longrightarrow> invariant w'"
proof (induction xs arbitrary: w)
  case Nil
  then show ?case by simp
next
  case (Cons x xs)
  from Cons.prems(2) obtain w1 where s: "step res T x w = Some w1" and r: "run res T xs w1 = Some w'"
    by (auto split: option.splits)
  from assms Cons.prems(1) s have "invariant w1" by (rule invariant_step)
  from this r show ?case by (rule Cons.IH)
qed

lemma invariant_Empty_or_Holding:
  "invariant w = (\<forall>i \<in> live w. Empty (heap w i) \<or> Holding (heap w i))"
  by (auto simp: invariant_def Empty_def Holding_def)

lemma invariant_no_objects: "invariant (no_objects r)"
  by (simp add: invariant_def no_objects_def)

text \<open>
  C4. When a successful \<open>allocate\<close> returns a non-null pointer, every program of
  constructions, move constructions, move assignments, swaps and destructions takes a
  state in which every living buffer satisfies \<open>count = 0 \<longleftrightarrow> raw = null\<close> to a state in
  which every living buffer does. So every buffer of a state reached from storage without
  objects is Empty or Holding.
\<close>

theorem state_invariant_preserved:
  fixes res :: "'r resources"
  assumes "allocate_non_null res" and "invariant w" and "run res T xs w = Some w'"
  shows "invariant w' \<and> (\<forall>i \<in> live w'. Empty (heap w' i) \<or> Holding (heap w' i))"
proof -
  from assms have "invariant w'" by (rule invariant_run)
  then show ?thesis by (simp add: invariant_Empty_or_Holding)
qed

theorem state_invariant_preserved_witness:
  "allocate_non_null (\<lambda>(r::nat) h n. Some 4096)
   \<and> invariant (no_objects (7::nat))
   \<and> (\<exists>w'. run (\<lambda>r h n. Some 4096) \<lparr>sizeof = 4, alignof = 4\<rparr>
               [Construct 0 (7::nat) 5, Construct 1 7 0, MoveConstruct 2 0, MoveAssign 1 2,
                Swap 0 1, Destroy 2, Construct 2 7 9]
               (no_objects 7) = Some w'
           \<and> live w' = {0, 1, 2}
           \<and> invariant w')"
proof -
  have nn: "allocate_non_null (\<lambda>(r::nat) h n. Some 4096)"
    by (simp add: allocate_non_null_def nullptr_def)
  have inv0: "invariant (no_objects (7::nat))"
    by (rule invariant_no_objects)
  obtain w' where r: "run (\<lambda>r h n. Some 4096) \<lparr>sizeof = 4, alignof = 4\<rparr>
               [Construct 0 7 5, Construct 1 7 0, MoveConstruct 2 0, MoveAssign 1 2,
                Swap 0 1, Destroy 2, Construct 2 7 9]
               (no_objects (7::nat)) = Some w'" and l: "live w' = {0, 1, 2}"
    by (simp add: uninitialized_buffer_def move_construct_def move_assign_def swap_def
          std_swap_def destroy_def field_updates Let_def no_objects_def get_allocation_size_def
          insert_commute)
  from state_invariant_preserved [OF nn inv0 r] have "invariant w'" by simp
  with nn inv0 r l show ?thesis by (intro conjI exI [of _ w'])
qed

end
